theory Spec2Isabelle
  imports Main "HOL-Library.Word"
begin

unbundle bit_operations_syntax

section \<open>JavaScript values used by the packet code\<close>

text \<open>
  A \<^verbatim>\<open>Uint8Array\<close> is a list of bytes. Every exception the source can raise is a value
  of \<open>js_error\<close>, carrying the message or the offending identifier; a function that may
  throw returns \<open>js_error + 'a\<close> with \<open>Inl\<close> for the thrown error.
\<close>

type_synonym byte = "8 word"
type_synonym bytes = "byte list"

datatype js_error =
    ReferenceError string
  | TypeError string
  | RangeError string
  | Error string

text \<open>
  \<^verbatim>\<open>target.set(source, offset)\<close> of a typed array: copies \<open>source\<close> into \<open>target\<close>
  starting at \<open>offset\<close>, and throws a RangeError when the source does not fit.
\<close>

definition typed_array_set :: "bytes \<Rightarrow> bytes \<Rightarrow> nat \<Rightarrow> js_error + bytes" where
  "typed_array_set target source off =
     (if off + length source \<le> length target
      then Inr (take off target @ source @ drop (off + length source) target)
      else Inl (RangeError ''offset is out of bounds''))"

text \<open>\<^verbatim>\<open>a.subarray(begin, end)\<close>: the bytes from \<open>begin\<close> up to \<open>end\<close>, clamped to the array.\<close>

definition subarray :: "bytes \<Rightarrow> nat \<Rightarrow> nat \<Rightarrow> bytes" where
  "subarray a b e = take (e - b) (drop b a)"

text \<open>Big-endian byte order, the default of \<^verbatim>\<open>DataView\<close> reads and writes.\<close>

definition be32 :: "32 word \<Rightarrow> bytes" where
  "be32 w = [ucast (drop_bit 24 w), ucast (drop_bit 16 w), ucast (drop_bit 8 w), ucast w]"

definition rd32 :: "bytes \<Rightarrow> 32 word" where
  "rd32 bs = push_bit 24 (ucast (bs ! 0)) OR push_bit 16 (ucast (bs ! 1))
             OR push_bit 8 (ucast (bs ! 2)) OR ucast (bs ! 3)"

definition be64 :: "64 word \<Rightarrow> bytes" where
  "be64 w = [ucast (drop_bit 56 w), ucast (drop_bit 48 w), ucast (drop_bit 40 w),
             ucast (drop_bit 32 w), ucast (drop_bit 24 w), ucast (drop_bit 16 w),
             ucast (drop_bit 8 w), ucast w]"

definition rd64 :: "bytes \<Rightarrow> 64 word" where
  "rd64 bs = push_bit 56 (ucast (bs ! 0)) OR push_bit 48 (ucast (bs ! 1))
             OR push_bit 40 (ucast (bs ! 2)) OR push_bit 32 (ucast (bs ! 3))
             OR push_bit 24 (ucast (bs ! 4)) OR push_bit 16 (ucast (bs ! 5))
             OR push_bit 8 (ucast (bs ! 6)) OR ucast (bs ! 7)"

text \<open>
  A property read from an object literal: the object is the list of its properties, and a
  missing property reads as \<^verbatim>\<open>undefined\<close> (\<open>None\<close>). The numbers of this code are
  integers. \<open>ToInt32\<close> is the conversion the bitwise operators apply to an operand:
  \<^verbatim>\<open>undefined\<close> becomes 0, an integer is taken modulo \<open>2 ^ 32\<close>.
\<close>

type_synonym js_object = "(string \<times> int) list"

definition ToInt32 :: "int option \<Rightarrow> 32 word" where
  "ToInt32 v = (case v of None \<Rightarrow> 0 | Some n \<Rightarrow> word_of_int n)"

section \<open>The header codec: class NHPHeader\<close>

text \<open>
  The constructor keeps two views of one buffer: \<^verbatim>\<open>this.view\<close>, a \<^verbatim>\<open>DataView\<close>
  of a fixed number of bytes, and \<^verbatim>\<open>this.bytes\<close>, a \<^verbatim>\<open>Uint8Array\<close> over the buffer.
  Both alias the same memory, so the model keeps the buffer once (\<open>bytes\<close>) and the
  length that bounds the \<^verbatim>\<open>DataView\<close> accesses (\<open>view_byteLength\<close>).
\<close>

record NHPHeader =
  view_byteLength :: nat
  bytes :: bytes

definition NHPHeader_SIZE :: nat where
  "NHPHeader_SIZE = 240"

subsection \<open>DataView accesses\<close>

definition view_getUint32 :: "NHPHeader \<Rightarrow> nat \<Rightarrow> js_error + 32 word" where
  "view_getUint32 h off =
     (if off + 4 \<le> view_byteLength h
      then Inr (rd32 (take 4 (drop off (bytes h))))
      else Inl (RangeError ''Offset is outside the bounds of the DataView''))"

definition view_setUint32 :: "NHPHeader \<Rightarrow> nat \<Rightarrow> 32 word \<Rightarrow> js_error + NHPHeader" where
  "view_setUint32 h off v =
     (if off + 4 \<le> view_byteLength h
      then Inr (h\<lparr>bytes := take off (bytes h) @ be32 v @ drop (off + 4) (bytes h)\<rparr>)
      else Inl (RangeError ''Offset is outside the bounds of the DataView''))"

definition view_setUint8 :: "NHPHeader \<Rightarrow> nat \<Rightarrow> byte \<Rightarrow> js_error + NHPHeader" where
  "view_setUint8 h off v =
     (if off + 1 \<le> view_byteLength h
      then Inr (h\<lparr>bytes := take off (bytes h) @ [v] @ drop (off + 1) (bytes h)\<rparr>)
      else Inl (RangeError ''Offset is outside the bounds of the DataView''))"

definition view_getBigUint64 :: "NHPHeader \<Rightarrow> nat \<Rightarrow> js_error + 64 word" where
  "view_getBigUint64 h off =
     (if off + 8 \<le> view_byteLength h
      then Inr (rd64 (take 8 (drop off (bytes h))))
      else Inl (RangeError ''Offset is outside the bounds of the DataView''))"

text \<open>
  \<^verbatim>\<open>view.setBigUint64(byteOffset, value)\<close> converts its first argument to an index and
  its second to a BigInt, in this order, before it writes. A BigInt is not convertible
  to an index and \<^verbatim>\<open>undefined\<close> is not convertible to a BigInt: both conversions throw
  a TypeError.
\<close>

datatype js_arg = Undefined | Number int | BigInt int

definition ToIndex :: "js_arg \<Rightarrow> js_error + nat" where
  "ToIndex a =
     (case a of
        Undefined \<Rightarrow> Inr 0
      | Number n \<Rightarrow> (if n < 0 then Inl (RangeError ''Invalid index'') else Inr (nat n))
      | BigInt n \<Rightarrow> Inl (TypeError ''Cannot convert a BigInt value to a number''))"

definition ToBigInt :: "js_arg \<Rightarrow> js_error + int" where
  "ToBigInt a =
     (case a of
        Undefined \<Rightarrow> Inl (TypeError ''Cannot convert undefined to a BigInt'')
      | Number n \<Rightarrow> Inl (TypeError ''Cannot convert a number to a BigInt'')
      | BigInt n \<Rightarrow> Inr n)"

definition view_setBigUint64 :: "NHPHeader \<Rightarrow> js_arg \<Rightarrow> js_arg \<Rightarrow> js_error + NHPHeader" where
  "view_setBigUint64 h byteOffset val =
     (case ToIndex byteOffset of
        Inl e \<Rightarrow> Inl e
      | Inr off \<Rightarrow>
          (case ToBigInt val of
             Inl e \<Rightarrow> Inl e
           | Inr n \<Rightarrow>
               if off + 8 \<le> view_byteLength h
               then Inr (h\<lparr>bytes := take off (bytes h) @ be64 (word_of_int n)
                                       @ drop (off + 8) (bytes h)\<rparr>)
               else Inl (RangeError ''Offset is outside the bounds of the DataView'')))"

subsection \<open>The obfuscated type and payload size (source lines 21 to 36)\<close>

text \<open>
  The getter XORs the two big-endian words at offsets 0 and 4 and splits the result into
  its upper and lower 16 bits. It returns the pair \<open>(type, size)\<close>.
\<close>

definition get_typeAndPayloadSize :: "NHPHeader \<Rightarrow> js_error + (int \<times> int)" where
  "get_typeAndPayloadSize h =
     (case view_getUint32 h 0 of
        Inl e \<Rightarrow> Inl e
      | Inr w0 \<Rightarrow>
          (case view_getUint32 h 4 of
             Inl e \<Rightarrow> Inl e
           | Inr w4 \<Rightarrow>
               (let val = w0 XOR w4
                in Inr (uint (drop_bit 16 (val AND 0xFFFF0000)), uint (val AND 0x0000FFFF)))))"

text \<open>
  The setter receives an object and reads its properties \<^verbatim>\<open>type\<close> and \<^verbatim>\<open>size\<close>.
  The random preamble comes from \<^verbatim>\<open>window.crypto.subtle.getRandomValues(preamble)\<close>;
  the outcome of that call belongs to the host and is the argument \<open>rnd\<close>: the error the
  call throws, or the word it stores in \<^verbatim>\<open>preamble[0]\<close>.

  Line 32 is \<^verbatim>\<open>(type & 0x0000FFFF << 16 | size & 0x0000FFFF) >>> 0\<close>. In JavaScript
  \<^verbatim>\<open><<\<close> binds tighter than \<^verbatim>\<open>&\<close>, which binds tighter than \<^verbatim>\<open>|\<close>, so the
  expression is \<^verbatim>\<open>(type & (0x0000FFFF << 16)) | (size & 0x0000FFFF)\<close>.
\<close>

definition set_typeAndPayloadSize ::
    "(js_error + 32 word) \<Rightarrow> NHPHeader \<Rightarrow> js_object \<Rightarrow> js_error + NHPHeader" where
  "set_typeAndPayloadSize rnd h obj =
     (let type = map_of obj ''type''; size = map_of obj ''size''
      in case rnd of
           Inl e \<Rightarrow> Inl e
         | Inr preamble \<Rightarrow>
             (let tns = (ToInt32 type AND push_bit 16 0x0000FFFF) OR (ToInt32 size AND 0x0000FFFF);
                  tns = preamble XOR tns
              in case view_setUint32 h 0 preamble of
                   Inl e \<Rightarrow> Inl e
                 | Inr h1 \<Rightarrow> view_setUint32 h1 4 tns))"

subsection \<open>Version, counter and nonce (source lines 38 to 66)\<close>

definition set_version :: "NHPHeader \<Rightarrow> byte \<Rightarrow> byte \<Rightarrow> js_error + NHPHeader" where
  "set_version h major minor =
     (case view_setUint8 h 8 major of
        Inl e \<Rightarrow> Inl e
      | Inr h1 \<Rightarrow> view_setUint8 h1 9 minor)"

definition get_counter :: "NHPHeader \<Rightarrow> js_error + 64 word" where
  "get_counter h = view_getBigUint64 h 16"

text \<open>
  Line 60 is \<^verbatim>\<open>set counter(v) { this.view.setBigUint64(v); }\<close>: the BigInt \<open>v\<close> is passed
  in the place of the byte offset and no value is passed.
\<close>

definition set_counter :: "NHPHeader \<Rightarrow> 64 word \<Rightarrow> js_error + NHPHeader" where
  "set_counter h v = view_setBigUint64 h (BigInt (uint v)) Undefined"

text \<open>
  The nonce getter copies bytes 16 to 23 of the buffer into a fresh array of 12 zero bytes,
  at offset 4. The copy is at most 8 bytes long, so it always fits.
\<close>

definition get_nonce :: "NHPHeader \<Rightarrow> bytes" where
  "get_nonce h =
     (let sub = subarray (bytes h) 16 24
      in replicate 4 0 @ sub @ replicate (8 - length sub) 0)"

subsection \<open>The fixed-width byte fields (source lines 68 to 101)\<close>

definition get_ephermeral :: "NHPHeader \<Rightarrow> bytes" where
  "get_ephermeral h = subarray (bytes h) 24 (24 + 32)"

definition set_ephermeral :: "NHPHeader \<Rightarrow> bytes \<Rightarrow> js_error + NHPHeader" where
  "set_ephermeral h bs =
     (if length bs = 32
      then (case typed_array_set (bytes h) bs 24 of
              Inl e \<Rightarrow> Inl e
            | Inr b \<Rightarrow> Inr (h\<lparr>bytes := b\<rparr>))
      else Inr h)"

definition get_identity :: "NHPHeader \<Rightarrow> bytes" where
  "get_identity h = subarray (bytes h) 56 (56 + 80)"

definition set_identity :: "NHPHeader \<Rightarrow> bytes \<Rightarrow> js_error + NHPHeader" where
  "set_identity h bs =
     (if length bs = 80
      then (case typed_array_set (bytes h) bs 56 of
              Inl e \<Rightarrow> Inl e
            | Inr b \<Rightarrow> Inr (h\<lparr>bytes := b\<rparr>))
      else Inr h)"

definition get_static :: "NHPHeader \<Rightarrow> bytes" where
  "get_static h = subarray (bytes h) 136 (136 + 48)"

definition set_static :: "NHPHeader \<Rightarrow> bytes \<Rightarrow> js_error + NHPHeader" where
  "set_static h bs =
     (if length bs = 48
      then (case typed_array_set (bytes h) bs 136 of
              Inl e \<Rightarrow> Inl e
            | Inr b \<Rightarrow> Inr (h\<lparr>bytes := b\<rparr>))
      else Inr h)"

definition get_timestamp :: "NHPHeader \<Rightarrow> bytes" where
  "get_timestamp h = subarray (bytes h) 184 (184 + 24)"

definition set_timestamp :: "NHPHeader \<Rightarrow> bytes \<Rightarrow> js_error + NHPHeader" where
  "set_timestamp h bs =
     (if length bs = 24
      then (case typed_array_set (bytes h) bs 184 of
              Inl e \<Rightarrow> Inl e
            | Inr b \<Rightarrow> Inr (h\<lparr>bytes := b\<rparr>))
      else Inr h)"

definition get_hmac :: "NHPHeader \<Rightarrow> bytes" where
  "get_hmac h = subarray (bytes h) 208 (208 + 32)"

definition set_hmac :: "NHPHeader \<Rightarrow> bytes \<Rightarrow> js_error + NHPHeader" where
  "set_hmac h bs =
     (if length bs = 32
      then (case typed_array_set (bytes h) bs 208 of
              Inl e \<Rightarrow> Inl e
            | Inr b \<Rightarrow> Inr (h\<lparr>bytes := b\<rparr>))
      else Inr h)"

section \<open>What the module takes from outside\<close>

subsection \<open>The host\<close>

text \<open>
  \<^verbatim>\<open>nhp.js\<close> is an ES module. It uses four names that it neither declares nor imports:
  \<^verbatim>\<open>Header\<close> (line 17; the class is called \<^verbatim>\<open>NHPHeader\<close>), \<^verbatim>\<open>stringToBytes\<close>
  (lines 124 to 127; line 1 re-exports it, which creates no local binding),
  \<^verbatim>\<open>buffer\<close> (line 161) and the method \<^verbatim>\<open>window.crypto.subtle.getRandomValues\<close>
  (line 31). What evaluating each of them gives is decided by the host's global object, so a
  host is the record of these outcomes: the error thrown, or the value.
  \<^verbatim>\<open>getUnixNano\<close> of \<^verbatim>\<open>utils.js\<close> reads two clocks of the host.
\<close>

record host =
  eval_Header_SIZE :: "js_error + nat"
  call_subtle_getRandomValues :: "js_error + 32 word"
  call_stringToBytes :: "string \<Rightarrow> js_error + bytes"
  new_Uint8Array_buffer :: "js_error + bytes"
  Date_now :: int
  sub_ms_nanos :: int

text \<open>
  \<open>plain_host\<close> is a host that defines none of the unbound names, and whose
  \<^verbatim>\<open>window.crypto.subtle\<close> is the \<^verbatim>\<open>SubtleCrypto\<close> object of the Web Crypto API,
  which has no method \<^verbatim>\<open>getRandomValues\<close> (that method belongs to \<^verbatim>\<open>window.crypto\<close>).
  Its clocks read 0.
\<close>

definition plain_host :: host where
  "plain_host =
     \<lparr>eval_Header_SIZE = Inl (ReferenceError ''Header is not defined''),
      call_subtle_getRandomValues =
        Inl (TypeError ''window.crypto.subtle.getRandomValues is not a function''),
      call_stringToBytes = (\<lambda>str. Inl (ReferenceError ''stringToBytes is not defined'')),
      new_Uint8Array_buffer = Inl (ReferenceError ''buffer is not defined''),
      Date_now = 0,
      sub_ms_nanos = 0\<rparr>"

text \<open>
  \<^verbatim>\<open>getUnixNano\<close> (\<^verbatim>\<open>utils.js\<close>, lines 27 to 31): milliseconds since the epoch times
  \<open>10^6\<close>, plus \<^verbatim>\<open>Math.floor(subMs * 1_000_000)\<close>, which the host field
  \<open>sub_ms_nanos\<close> stands for.
\<close>

definition getUnixNano :: "host \<Rightarrow> int" where
  "getUnixNano hst = Date_now hst * 1000000 + sub_ms_nanos hst"

subsection \<open>The functions imported from crypto.js\<close>

text \<open>
  \<^verbatim>\<open>crypto.js\<close> is imported by \<^verbatim>\<open>nhp.js\<close> and is not among the sources. Its
  functions are parameters of the model, each returning the error it throws or its result.
  \<open>'k\<close> is the type of key objects, \<open>'h\<close> the type of hasher states. Where the source
  hands a function a string at one call and a byte array at another, the argument is a
  \<open>js_data\<close>. \<open>generateX25519KeyPair\<close> is the outcome of the one call a build makes,
  the pair (private key, public key); \<open>keyGen2\<close> returns the pair (first, second);
  \<open>updateSHA256\<close> returns the hasher after the update and \<open>sumSHA256\<close> the digest
  together with the hasher after the read.
\<close>

datatype js_data = Str string | Bytes bytes

record ('k, 'h) crypto_js =
  base64To25519PrivateKey :: "string \<Rightarrow> js_error + 'k"
  base64To25519PublicKey :: "string \<Rightarrow> js_error + 'k"
  generateX25519KeyPair :: "js_error + 'k \<times> 'k"
  x25519PublicKeyToBytes :: "'k \<Rightarrow> js_error + bytes"
  ecdhX25519 :: "'k \<Rightarrow> 'k \<Rightarrow> js_error + 'k"
  mixKey :: "bytes \<Rightarrow> bytes \<Rightarrow> js_error + bytes"
  keyGen2 :: "bytes \<Rightarrow> bytes \<Rightarrow> js_error + bytes \<times> bytes"
  chacha20Seal :: "bytes \<Rightarrow> bytes \<Rightarrow> js_data \<Rightarrow> bytes \<Rightarrow> js_error + bytes"
  newSHA256Hash :: "'h"
  updateSHA256 :: "'h \<Rightarrow> js_data \<Rightarrow> js_error + 'h"
  sumSHA256 :: "'h \<Rightarrow> js_error + bytes \<times> 'h"

section \<open>Module state and effects\<close>

text \<open>
  The module has one piece of state, \<^verbatim>\<open>GlobalCounter\<close>, a \<^verbatim>\<open>BigUint64Array\<close> of one
  element: a 64-bit word that wraps around. The calls a build makes into
  \<^verbatim>\<open>crypto.js\<close> are effects as well; the model records them, in order, in
  \<open>crypto_log\<close>: a seal with its key, nonce, plaintext and associated data, a hasher
  call with the name of the variable that holds the hasher.
\<close>

datatype crypto_call =
    ImportKey string
  | GenerateKeyPair
  | ExportKey
  | ECDH
  | MixKey bytes bytes
  | KeyGen2 bytes bytes
  | Seal bytes bytes js_data bytes
  | HashUpdate string js_data
  | HashSum string

record world =
  GlobalCounter :: "64 word"
  crypto_log :: "crypto_call list"

text \<open>
  A statement sequence is a function from the world to an outcome and the world it leaves.
  \<open>bindP\<close> runs the rest of the sequence on the value of a step, or stops at the error it
  throws and keeps the effects made so far. \<open>step\<close> is a statement without effect on the
  world, \<open>crypto\<close> a call into \<^verbatim>\<open>crypto.js\<close>, which is logged whether it returns or
  throws.
\<close>

type_synonym 'a prog = "world \<Rightarrow> (js_error + 'a) \<times> world"

definition bindP :: "'a prog \<Rightarrow> ('a \<Rightarrow> 'b prog) \<Rightarrow> 'b prog" where
  "bindP m f = (\<lambda>w. case m w of (Inl e, w') \<Rightarrow> (Inl e, w') | (Inr x, w') \<Rightarrow> f x w')"

definition returnP :: "'a \<Rightarrow> 'a prog" where
  "returnP x = (\<lambda>w. (Inr x, w))"

definition step :: "js_error + 'a \<Rightarrow> 'a prog" where
  "step r = (\<lambda>w. (r, w))"

definition log_call :: "crypto_call \<Rightarrow> world \<Rightarrow> world" where
  "log_call c w = w\<lparr>crypto_log := crypto_log w @ [c]\<rparr>"

definition crypto :: "crypto_call \<Rightarrow> js_error + 'a \<Rightarrow> 'a prog" where
  "crypto c r = (\<lambda>w. (r, log_call c w))"

definition increment_GlobalCounter :: "unit prog" where
  "increment_GlobalCounter = (\<lambda>w. (Inr (), w\<lparr>GlobalCounter := GlobalCounter w + 1\<rparr>))"

definition read_GlobalCounter :: "64 word prog" where
  "read_GlobalCounter = (\<lambda>w. (Inr (GlobalCounter w), w))"

section \<open>Building a packet: buildNHPPacket\<close>

definition PacketBufferSize :: nat where
  "PacketBufferSize = 4096"

definition InitialChainKeyString :: string where
  "InitialChainKeyString = ''NHP keygen v.20230421@clouddeep.cn''"

definition InitialHashString :: string where
  "InitialHashString = ''NHP hashgen v.20230421@deepcloudsdp.com''"

text \<open>
  The constructor (lines 16 to 19), called with the default offset 0 as
  \<^verbatim>\<open>buildNHPPacket\<close> calls it. \<^verbatim>\<open>new DataView(buffer, 0, Header.SIZE)\<close> first
  evaluates \<^verbatim>\<open>Header.SIZE\<close> and throws a RangeError when the view does not fit the
  buffer.
\<close>

definition NHPHeader_new :: "host \<Rightarrow> bytes \<Rightarrow> js_error + NHPHeader" where
  "NHPHeader_new hst buffer =
     (case eval_Header_SIZE hst of
        Inl e \<Rightarrow> Inl e
      | Inr n \<Rightarrow>
          if n \<le> length buffer
          then Inr \<lparr>view_byteLength = n, bytes = buffer\<rparr>
          else Inl (RangeError ''Invalid DataView length''))"

text \<open>
  Lines 119 to 175 of \<^verbatim>\<open>buildNHPPacket\<close>: the handshake, from the two zeroed chain
  arrays to the returned packet. \<open>header\<close> is the header as lines 105 to 116 leave it;
  its buffer is the packet buffer, so line 173, \<^verbatim>\<open>packet.set(msgStatic, 240)\<close>, writes
  into \<open>bytes header\<close>. The plaintext of the first seal (line 145) is the parameter
  \<^verbatim>\<open>publicKey\<close>, a string; the plaintext of the second (line 163) is
  \<^verbatim>\<open>new Uint8Array(buffer)\<close>, not the \<^verbatim>\<open>tsBuf\<close> that lines 158 to 160 fill.
  No statement assigns \<^verbatim>\<open>header.hmac\<close> or reads \<^verbatim>\<open>hmacHasher\<close>.
\<close>

definition build_handshake ::
    "host \<Rightarrow> ('k, 'h) crypto_js \<Rightarrow> NHPHeader \<Rightarrow> bytes \<Rightarrow> 'k \<Rightarrow> 'k \<Rightarrow> string \<Rightarrow> string
       \<Rightarrow> bytes \<Rightarrow> bytes prog" where
  "build_handshake hst cr header nonce localPrivKey remotePubKey publicKey remotePublicKey msg =
     (let chainKey = replicate 32 0;
          chainHash = replicate 32 0;
          hmacHasher = newSHA256Hash cr;
          chainHasher = newSHA256Hash cr
      in
      \<comment> \<open>lines 124 to 127\<close>
      bindP (step (call_stringToBytes hst InitialHashString)) (\<lambda>b.
      bindP (crypto (HashUpdate ''hmacHasher'' (Bytes b)) (updateSHA256 cr hmacHasher (Bytes b))) (\<lambda>hmacHasher.
      bindP (step (call_stringToBytes hst InitialHashString)) (\<lambda>b.
      bindP (crypto (HashUpdate ''chainHasher'' (Bytes b)) (updateSHA256 cr chainHasher (Bytes b))) (\<lambda>chainHasher.
      bindP (crypto (HashSum ''chainHasher'') (sumSHA256 cr chainHasher)) (\<lambda>(digest, chainHasher).
      bindP (step (typed_array_set chainHash digest 0)) (\<lambda>chainHash.
      bindP (step (call_stringToBytes hst InitialChainKeyString)) (\<lambda>b.
      bindP (crypto (MixKey chainHash b) (mixKey cr chainHash b)) (\<lambda>k.
      bindP (step (typed_array_set chainKey k 0)) (\<lambda>chainKey.
      \<comment> \<open>lines 129 and 130\<close>
      bindP (crypto (HashUpdate ''hmacHasher'' (Str remotePublicKey))
               (updateSHA256 cr hmacHasher (Str remotePublicKey))) (\<lambda>hmacHasher.
      bindP (crypto (HashUpdate ''chainHasher'' (Str remotePublicKey))
               (updateSHA256 cr chainHasher (Str remotePublicKey))) (\<lambda>chainHasher.
      \<comment> \<open>lines 132 to 137\<close>
      bindP (crypto GenerateKeyPair (generateX25519KeyPair cr)) (\<lambda>(ePrivateKey, ePublicObj).
      bindP (crypto ExportKey (x25519PublicKeyToBytes cr ePublicObj)) (\<lambda>ePublickey.
      bindP (step (set_ephermeral header ePublickey)) (\<lambda>header.
      bindP (crypto (HashUpdate ''chainHasher'' (Bytes ePublickey))
               (updateSHA256 cr chainHasher (Bytes ePublickey))) (\<lambda>chainHasher.
      bindP (crypto (HashSum ''chainHasher'') (sumSHA256 cr chainHasher)) (\<lambda>(digest, chainHasher).
      bindP (step (typed_array_set chainHash digest 0)) (\<lambda>chainHash.
      bindP (crypto (MixKey chainKey ePublickey) (mixKey cr chainKey ePublickey)) (\<lambda>k.
      bindP (step (typed_array_set chainKey k 0)) (\<lambda>chainKey.
      \<comment> \<open>lines 139 and 140\<close>
      bindP (crypto ECDH (ecdhX25519 cr ePrivateKey remotePubKey)) (\<lambda>essKey.
      bindP (crypto ExportKey (x25519PublicKeyToBytes cr essKey)) (\<lambda>ess.
      \<comment> \<open>lines 143 to 149\<close>
      bindP (crypto (KeyGen2 chainKey ess) (keyGen2 cr chainKey ess)) (\<lambda>(first0, second0).
      bindP (step (typed_array_set chainKey first0 0)) (\<lambda>chainKey.
      bindP (crypto (Seal second0 nonce (Str publicKey) chainHash)
               (chacha20Seal cr second0 nonce (Str publicKey) chainHash)) (\<lambda>keyStatic.
      bindP (step (set_static header keyStatic)) (\<lambda>header.
      bindP (crypto (HashUpdate ''chainHasher'' (Bytes keyStatic))
               (updateSHA256 cr chainHasher (Bytes keyStatic))) (\<lambda>chainHasher.
      bindP (crypto (HashSum ''chainHasher'') (sumSHA256 cr chainHasher)) (\<lambda>(digest, chainHasher).
      bindP (step (typed_array_set chainHash digest 0)) (\<lambda>chainHash.
      \<comment> \<open>lines 151 to 156\<close>
      bindP (crypto ECDH (ecdhX25519 cr localPrivKey remotePubKey)) (\<lambda>ssKey.
      bindP (crypto ExportKey (x25519PublicKeyToBytes cr ssKey)) (\<lambda>ss.
      bindP (crypto (KeyGen2 chainKey ss) (keyGen2 cr chainKey ss)) (\<lambda>(first1, second1).
      bindP (step (typed_array_set chainKey first1 0)) (\<lambda>chainKey.
      \<comment> \<open>lines 158 to 164\<close>
      let tsBuf = be64 (word_of_int (getUnixNano hst)) in
      bindP (step (new_Uint8Array_buffer hst)) (\<lambda>ts.
      bindP (crypto (Seal second1 nonce (Bytes ts) chainHash)
               (chacha20Seal cr second1 nonce (Bytes ts) chainHash)) (\<lambda>tsStatic.
      bindP (step (set_timestamp header tsStatic)) (\<lambda>header.
      \<comment> \<open>lines 167 to 170\<close>
      bindP (crypto (KeyGen2 chainKey tsStatic) (keyGen2 cr chainKey tsStatic)) (\<lambda>(first2, second2).
      bindP (step (typed_array_set chainKey first2 0)) (\<lambda>chainKey.
      bindP (crypto (HashUpdate ''chainHasher'' (Bytes tsStatic))
               (updateSHA256 cr chainHasher (Bytes tsStatic))) (\<lambda>chainHasher.
      bindP (crypto (HashSum ''chainHasher'') (sumSHA256 cr chainHasher)) (\<lambda>(digest, chainHasher).
      bindP (step (typed_array_set chainHash digest 0)) (\<lambda>chainHash.
      \<comment> \<open>lines 172 to 175\<close>
      bindP (crypto (Seal second2 nonce (Bytes msg) chainHash)
               (chacha20Seal cr second2 nonce (Bytes msg) chainHash)) (\<lambda>msgStatic.
      bindP (step (typed_array_set (bytes header) msgStatic 240)) (\<lambda>packet.
      returnP (subarray packet 0 (240 + length msg + 16))
      )))))))))))))))))))))))))))))))))))))))))))"

text \<open>
  \<^verbatim>\<open>buildNHPPacket\<close> (lines 104 to 176). Line 113 passes the object
  \<^verbatim>\<open>{type, payloadSize}\<close> to a setter that reads the properties \<^verbatim>\<open>type\<close> and
  \<^verbatim>\<open>size\<close>. Line 115 increments the counter, line 116 hands the new value to the
  \<^verbatim>\<open>counter\<close> setter, line 117 reads the nonce. The function is \<^verbatim>\<open>async\<close>: the
  model is one call run from its first statement to its end, and the error of a rejected
  promise is the thrown error.
\<close>

definition buildNHPPacket ::
    "host \<Rightarrow> ('k, 'h) crypto_js \<Rightarrow> int \<Rightarrow> string \<Rightarrow> string \<Rightarrow> string \<Rightarrow> bytes \<Rightarrow> bytes prog" where
  "buildNHPPacket hst cr type privateKey publicKey remotePublicKey msg =
     (let packet = replicate PacketBufferSize 0 in
      bindP (step (NHPHeader_new hst packet)) (\<lambda>header.
      bindP (crypto (ImportKey privateKey) (base64To25519PrivateKey cr privateKey)) (\<lambda>localPrivKey.
      bindP (crypto (ImportKey publicKey) (base64To25519PublicKey cr publicKey)) (\<lambda>localPubKey.
      bindP (crypto (ImportKey remotePublicKey) (base64To25519PublicKey cr remotePublicKey))
        (\<lambda>remotePubKey.
      let payloadSize = int (length msg) + 16 in
      bindP (step (set_typeAndPayloadSize (call_subtle_getRandomValues hst) header
                     [(''type'', type), (''payloadSize'', payloadSize)])) (\<lambda>header.
      bindP (step (set_version header 1 0)) (\<lambda>header.
      bindP increment_GlobalCounter (\<lambda>_.
      bindP read_GlobalCounter (\<lambda>counter.
      bindP (step (set_counter header counter)) (\<lambda>header.
      let nonce = get_nonce header in
      build_handshake hst cr header nonce localPrivKey remotePubKey publicKey remotePublicKey msg
      ))))))))))"

section \<open>Parsing a packet: parseNHPPacket\<close>

text \<open>
  Lines 178 to 180: the function has an empty body, so for every argument it produces
  \<^verbatim>\<open>undefined\<close>, modelled as \<open>None\<close>; \<open>Some\<close> would carry the decoded packet type,
  static public key, timestamp and payload.
\<close>

definition parseNHPPacket :: "bytes \<Rightarrow> (int \<times> bytes \<times> bytes \<times> bytes) option" where
  "parseNHPPacket bs = None"

section \<open>SM2 key exchange: sm2ECDH\<close>

text \<open>
  \<^verbatim>\<open>sm2.ts\<close> imports \<^verbatim>\<open>sm2.ecdh\<close> from the library \<^verbatim>\<open>sm-crypto-v2\<close> and
  \<^verbatim>\<open>bytesToHex\<close> from \<^verbatim>\<open>crypto/utils.js\<close>; neither is among the sources, so both are
  parameters. The result of \<open>sm2ECDH\<close> is paired with the list of calls made to
  \<^verbatim>\<open>sm2.ecdh\<close>, each with its two arguments.
\<close>

record sm2_lib =
  bytesToHex :: "bytes \<Rightarrow> string"
  sm2_ecdh :: "string \<Rightarrow> string \<Rightarrow> js_error + bytes"

definition SM2_PRIVATE_KEY_SIZE :: nat where
  "SM2_PRIVATE_KEY_SIZE = 32"

definition SM2_PUBLIC_KEY_SIZE :: nat where
  "SM2_PUBLIC_KEY_SIZE = 64"

definition sm2ECDH ::
    "sm2_lib \<Rightarrow> bytes \<Rightarrow> bytes \<Rightarrow> (js_error + bytes) \<times> (string \<times> string) list" where
  "sm2ECDH lib privateKey publicKey =
     (if length privateKey \<noteq> SM2_PRIVATE_KEY_SIZE
      then (Inl (Error ''SM2 private key must be 32 bytes''), [])
      else if length publicKey \<noteq> SM2_PUBLIC_KEY_SIZE
      then (Inl (Error ''SM2 public key must be 64 bytes''), [])
      else
        (let privateKeyHex = bytesToHex lib privateKey;
             publicKeyHex = ''04'' @ bytesToHex lib publicKey
         in (case sm2_ecdh lib privateKeyHex publicKeyHex of
               Inl e \<Rightarrow> Inl e
             | Inr sharedSecret \<Rightarrow> Inr (take 32 sharedSecret),
             [(privateKeyHex, publicKeyHex)])))"

section \<open>Sample values and observations\<close>

text \<open>
  Stand-ins for the parts that are not among the sources, used only to evaluate the code at
  concrete inputs: a \<^verbatim>\<open>crypto.js\<close> whose keys are strings, whose hasher is the list
  of bytes fed to it and whose digest is 31 zero bytes and the number of bytes fed. Nothing
  that is proved for every host and every \<^verbatim>\<open>crypto.js\<close> depends on them.
\<close>

definition sample_bytes :: "string \<Rightarrow> bytes" where
  "sample_bytes str = map (\<lambda>c. of_nat (of_char c)) str"

definition data_bytes :: "js_data \<Rightarrow> bytes" where
  "data_bytes d = (case d of Str s \<Rightarrow> sample_bytes s | Bytes b \<Rightarrow> b)"

definition sample_hash :: "bytes \<Rightarrow> bytes" where
  "sample_hash x = replicate 31 0 @ [of_nat (length x)]"

definition sample_crypto :: "(string, bytes) crypto_js" where
  "sample_crypto =
     \<lparr>base64To25519PrivateKey = (\<lambda>s. Inr s),
      base64To25519PublicKey = (\<lambda>s. Inr s),
      generateX25519KeyPair = Inr (''e-private'', ''e-public''),
      x25519PublicKeyToBytes = (\<lambda>k. Inr (replicate 32 1)),
      ecdhX25519 = (\<lambda>a b. Inr (a @ b)),
      mixKey = (\<lambda>k d. Inr (replicate 32 2)),
      keyGen2 = (\<lambda>k d. Inr (replicate 32 3, replicate 32 4)),
      chacha20Seal = (\<lambda>k n p a. Inr (data_bytes p @ replicate 16 5)),
      newSHA256Hash = [],
      updateSHA256 = (\<lambda>h d. Inr (h @ data_bytes d)),
      sumSHA256 = (\<lambda>h. Inr (sample_hash h, h))\<rparr>"

text \<open>
  \<open>sample_host\<close> is a host whose page defines the names the module leaves unbound
  (\<^verbatim>\<open>Header\<close> with \<^verbatim>\<open>SIZE\<close> 240, \<^verbatim>\<open>stringToBytes\<close>, an eight-byte
  \<^verbatim>\<open>buffer\<close>) and gives \<^verbatim>\<open>window.crypto.subtle\<close> a method
  \<^verbatim>\<open>getRandomValues\<close>.
\<close>

definition sample_host :: host where
  "sample_host =
     \<lparr>eval_Header_SIZE = Inr 240,
      call_subtle_getRandomValues = Inr 0xDEADBEEF,
      call_stringToBytes = (\<lambda>str. Inr (sample_bytes str)),
      new_Uint8Array_buffer = Inr (replicate 8 9),
      Date_now = 1700000000000,
      sub_ms_nanos = 5\<rparr>"

text \<open>
  One key exchange on the SM2 curve, with its real values. The private key is the number 2
  and the public key is the point \<open>3G\<close>, its X coordinate followed by its Y coordinate, so
  the shared point is \<open>6G\<close>. \<open>sm2_shared_X\<close> is the X coordinate of \<open>6G\<close>; its Y
  coordinate is odd. \<^verbatim>\<open>sm2.ecdh\<close> of \<^verbatim>\<open>sm-crypto-v2\<close> returns a shared point in
  compressed form, 33 bytes: the byte 02 or 03, by the parity of Y, and then the 32 bytes of
  X. \<open>tabulated_sm2\<close> holds that one call, on the lower-case hex strings that
  \<^verbatim>\<open>bytesToHex\<close> produces; it stands for the library at no other arguments.
\<close>

definition hex_digit :: "nat \<Rightarrow> char" where
  "hex_digit n = ''0123456789abcdef'' ! n"

definition bytesToHex_lower :: "bytes \<Rightarrow> string" where
  "bytesToHex_lower bs =
     concat (map (\<lambda>b. [hex_digit (unat b div 16), hex_digit (unat b mod 16)]) bs)"

definition sm2_private_2 :: bytes where
  "sm2_private_2 =
     [0, 0, 0, 0, 0, 0, 0, 0, 0, 0, 0, 0, 0, 0, 0, 0,
      0, 0, 0, 0, 0, 0, 0, 0, 0, 0, 0, 0, 0, 0, 0, 2]"

definition sm2_public_3G :: bytes where
  "sm2_public_3G =
     [169, 127, 124, 212, 179, 201, 147, 180, 190, 45, 170, 140, 219, 65, 226, 76,
      161, 63, 107, 217, 69, 48, 34, 68, 226, 105, 24, 241, 208, 80, 158, 191,
      83, 11, 93, 216, 140, 104, 142, 245, 204, 197, 206, 192, 138, 114, 21, 15,
      124, 64, 14, 229, 205, 4, 82, 146, 170, 172, 221, 3, 116, 88, 246, 230]"

definition sm2_shared_X :: bytes where
  "sm2_shared_X =
     [9, 39, 175, 181, 125, 147, 72, 59, 187, 23, 201, 62, 113, 242, 42, 49,
      5, 255, 136, 86, 166, 96, 22, 137, 44, 139, 26, 26, 60, 75, 13, 48]"

definition tabulated_sm2 :: sm2_lib where
  "tabulated_sm2 =
     \<lparr>bytesToHex = bytesToHex_lower,
      sm2_ecdh = (\<lambda>priv pub.
        if priv = ''0000000000000000000000000000000000000000000000000000000000000002''
           \<and> pub = ''04a97f7cd4b3c993b4be2daa8cdb41e24ca13f6bd945302244e26918f1d0509ebf530b5dd88c688ef5ccc5cec08a72150f7c400ee5cd045292aaacdd037458f6e6''
        then Inr (3 # sm2_shared_X)
        else Inl (Error ''call not tabulated''))\<rparr>"

text \<open>Kinds of logged calls, and the nonces and plaintexts of the logged seals, in order.\<close>

definition is_seal :: "crypto_call \<Rightarrow> bool" where
  "is_seal c = (case c of Seal k n p a \<Rightarrow> True | _ \<Rightarrow> False)"

definition is_hash_call :: "crypto_call \<Rightarrow> bool" where
  "is_hash_call c = (case c of HashUpdate h d \<Rightarrow> True | HashSum h \<Rightarrow> True | _ \<Rightarrow> False)"

definition is_key_derivation :: "crypto_call \<Rightarrow> bool" where
  "is_key_derivation c = (case c of MixKey k d \<Rightarrow> True | KeyGen2 k d \<Rightarrow> True | _ \<Rightarrow> False)"

definition seal_nonces :: "crypto_call list \<Rightarrow> bytes list" where
  "seal_nonces cs = concat (map (\<lambda>c. case c of Seal k n p a \<Rightarrow> [n] | _ \<Rightarrow> []) cs)"

definition seal_plaintexts :: "crypto_call list \<Rightarrow> js_data list" where
  "seal_plaintexts cs = concat (map (\<lambda>c. case c of Seal k n p a \<Rightarrow> [p] | _ \<Rightarrow> []) cs)"

text \<open>
  \<open>on_return m w Q\<close>: when the statements \<open>m\<close>, started in \<open>w\<close>, return a value, the value
  and the world they leave satisfy \<open>Q\<close>.
\<close>

definition on_return :: "'a prog \<Rightarrow> world \<Rightarrow> ('a \<Rightarrow> world \<Rightarrow> bool) \<Rightarrow> bool" where
  "on_return m w Q = (case m w of (Inl e, w') \<Rightarrow> True | (Inr x, w') \<Rightarrow> Q x w')"

section \<open>The header codec\<close>

subsection \<open>Byte order and masks\<close>

lemma rd32_be32: "rd32 (be32 w) = w"
  unfolding rd32_def be32_def
  apply simp
  apply (rule bit_word_eqI)
  apply (simp add: bit_simps)
  subgoal for n
    by (cases "24 \<le> n"; cases "16 \<le> n"; cases "8 \<le> n"; simp; linarith?)
  done

lemma length_be32: "length (be32 w) = 4"
  by (simp add: be32_def)

lemma low_mask_numeral: "(65535 :: 32 word) = mask 16"
  by (simp add: mask_eq_exp_minus_1)

lemma high_mask_numeral: "(0xFFFF0000 :: 32 word) = push_bit 16 (mask 16)"
  by (simp add: mask_eq_exp_minus_1)

text \<open>
  The left operand of \<^verbatim>\<open>|\<close> in line 32, \<^verbatim>\<open>type & (0x0000FFFF << 16)\<close>, keeps bits
  16 to 31 of \<^verbatim>\<open>type\<close>: for a 16-bit type it is 0.
\<close>

lemma type_operand_masked: "ToInt32 (Some (uint (t::16 word))) AND 0xFFFF0000 = 0"
  unfolding ToInt32_def high_mask_numeral
  apply (rule bit_word_eqI)
  apply (auto simp add: bit_simps dest: bit_imp_le_length)
  done

lemma size_operand_masked: "ToInt32 (Some (uint (s::16 word))) AND 0x0000FFFF = ucast s"
  unfolding ToInt32_def low_mask_numeral
  apply (rule bit_word_eqI)
  apply (auto simp add: bit_simps dest: bit_imp_le_length)
  done

lemma ucast16_high: "drop_bit 16 (ucast (s::16 word) :: 32 word) = 0"
  apply (rule bit_word_eqI)
  apply (auto simp add: bit_simps dest: bit_imp_le_length)
  done

lemma ucast16_low: "(ucast (s::16 word) :: 32 word) AND 0x0000FFFF = ucast s"
  unfolding low_mask_numeral
  apply (rule bit_word_eqI)
  apply (auto simp add: bit_simps dest: bit_imp_le_length)
  done

lemma uint_ucast16: "uint (ucast (s::16 word) :: 32 word) = uint s"
  by (simp add: uint_up_ucast is_up)

subsection \<open>Type and payload size\<close>

text \<open>
  Claim C4 says that setting \<^verbatim>\<open>typeAndPayloadSize\<close> to a 16-bit type and a 16-bit size
  and reading it back gives the same pair, for every preamble. The code does not do this:
  by the operator precedence in line 32 the type never reaches the stored word. For every
  preamble \<open>p\<close>, type \<open>t\<close> and size \<open>s\<close>, and every header whose view holds the two words,
  the read after the write returns type 0 and size \<open>s\<close>.
\<close>

theorem typeAndPayloadSize_set_get_loses_type:
  fixes t s :: "16 word"
  assumes "8 \<le> view_byteLength h" and "view_byteLength h \<le> length (bytes h)"
  shows "(case set_typeAndPayloadSize (Inr p) h [(''type'', uint t), (''size'', uint s)] of
            Inl e \<Rightarrow> Inl e
          | Inr h' \<Rightarrow> get_typeAndPayloadSize h') = Inr (0, uint s)"
  using assms
  unfolding set_typeAndPayloadSize_def get_typeAndPayloadSize_def
    view_setUint32_def view_getUint32_def
  by (simp add: Let_def type_operand_masked size_operand_masked length_be32 rd32_be32
      ucast16_high ucast16_low uint_ucast16)

text \<open>
  At type 1, size 513 and preamble \<open>0xDEADBEEF\<close>, on a header of eight zero bytes, the pair
  read back is \<open>(0, 513)\<close>.
\<close>

theorem typeAndPayloadSize_set_get_loses_type_witness:
  "8 \<le> view_byteLength \<lparr>view_byteLength = 8, bytes = [0, 0, 0, 0, 0, 0, 0, 0]\<rparr>
   \<and> view_byteLength \<lparr>view_byteLength = 8, bytes = [0, 0, 0, 0, 0, 0, 0, 0]\<rparr>
       \<le> length (bytes \<lparr>view_byteLength = 8, bytes = [0, 0, 0, 0, 0, 0, 0, 0]\<rparr>)
   \<and> (case set_typeAndPayloadSize (Inr 0xDEADBEEF)
              \<lparr>view_byteLength = 8, bytes = [0, 0, 0, 0, 0, 0, 0, 0]\<rparr>
              [(''type'', 1), (''size'', 513)] of
         Inl e \<Rightarrow> Inl e
       | Inr h' \<Rightarrow> get_typeAndPayloadSize h') = Inr (0, 513)"
  using typeAndPayloadSize_set_get_loses_type
    [of "\<lparr>view_byteLength = 8, bytes = [0, 0, 0, 0, 0, 0, 0, 0]\<rparr>" "0xDEADBEEF" 1 513]
  by simp

subsection \<open>Writes of the wrong length\<close>

text \<open>
  Claim C10. For each of the setters \<^verbatim>\<open>ephermeral\<close>, \<^verbatim>\<open>identity\<close>, \<^verbatim>\<open>static\<close>,
  \<^verbatim>\<open>timestamp\<close> and \<^verbatim>\<open>hmac\<close>, a byte array whose length differs from the width of
  the field (32, 80, 48, 24 and 32 bytes) leaves the header, every byte of its buffer
  included, as it was, and no error is raised.
\<close>

theorem setters_ignore_wrong_length:
  "(length bs \<noteq> 32 \<longrightarrow> set_ephermeral h bs = Inr h)
   \<and> (length bs \<noteq> 80 \<longrightarrow> set_identity h bs = Inr h)
   \<and> (length bs \<noteq> 48 \<longrightarrow> set_static h bs = Inr h)
   \<and> (length bs \<noteq> 24 \<longrightarrow> set_timestamp h bs = Inr h)
   \<and> (length bs \<noteq> 32 \<longrightarrow> set_hmac h bs = Inr h)"
  by (simp add: set_ephermeral_def set_identity_def set_static_def set_timestamp_def set_hmac_def)

text \<open>A three-byte array written to each field of a fresh header over the packet buffer.\<close>

theorem setters_ignore_wrong_length_witness:
  "length [1, 2, 3 :: byte] \<noteq> 32 \<and> length [1, 2, 3 :: byte] \<noteq> 80
   \<and> length [1, 2, 3 :: byte] \<noteq> 48 \<and> length [1, 2, 3 :: byte] \<noteq> 24
   \<and> set_ephermeral \<lparr>view_byteLength = 240, bytes = replicate 4096 0\<rparr> [1, 2, 3]
       = Inr \<lparr>view_byteLength = 240, bytes = replicate 4096 0\<rparr>
   \<and> set_identity \<lparr>view_byteLength = 240, bytes = replicate 4096 0\<rparr> [1, 2, 3]
       = Inr \<lparr>view_byteLength = 240, bytes = replicate 4096 0\<rparr>
   \<and> set_static \<lparr>view_byteLength = 240, bytes = replicate 4096 0\<rparr> [1, 2, 3]
       = Inr \<lparr>view_byteLength = 240, bytes = replicate 4096 0\<rparr>
   \<and> set_timestamp \<lparr>view_byteLength = 240, bytes = replicate 4096 0\<rparr> [1, 2, 3]
       = Inr \<lparr>view_byteLength = 240, bytes = replicate 4096 0\<rparr>
   \<and> set_hmac \<lparr>view_byteLength = 240, bytes = replicate 4096 0\<rparr> [1, 2, 3]
       = Inr \<lparr>view_byteLength = 240, bytes = replicate 4096 0\<rparr>"
  using setters_ignore_wrong_length
    [of "[1, 2, 3]" "\<lparr>view_byteLength = 240, bytes = replicate 4096 0\<rparr>"]
  by simp

subsection \<open>Counter and nonce\<close>

text \<open>
  The \<^verbatim>\<open>counter\<close> setter throws for every header and every value: the value sits where
  \<^verbatim>\<open>setBigUint64\<close> expects the byte offset.
\<close>

lemma set_counter_throws:
  "set_counter h v = Inl (TypeError ''Cannot convert a BigInt value to a number'')"
  by (simp add: set_counter_def view_setBigUint64_def ToIndex_def)

text \<open>
  The two getters agree on the layout: the nonce is four zero bytes followed by the eight
  bytes that the \<^verbatim>\<open>counter\<close> getter reads as a big-endian number.
\<close>

lemma bit_byte_high:
  "bit (x :: byte) (8 + n) = False" "bit x (16 + n) = False" "bit x (24 + n) = False"
  "bit x (32 + n) = False" "bit x (40 + n) = False" "bit x (48 + n) = False"
  "bit x (56 + n) = False"
  by (auto dest: bit_imp_le_length)

lemma be64_rd64_list:
  "be64 (rd64 [a, b, c, d, e, f, g, h]) = [a, b, c, d, e, f, g, h]"
  unfolding be64_def rd64_def
  apply simp
  apply (intro conjI; rule bit_word_eqI; simp add: bit_simps bit_byte_high; linarith?)
  done

lemma list_of_length_8:
  "length (xs :: 'a list) = 8 \<Longrightarrow> \<exists>a b c d e f g i. xs = [a, b, c, d, e, f, g, i]"
  by (auto simp: eval_nat_numeral length_Suc_conv)

lemma get_nonce_counter:
  assumes "24 \<le> view_byteLength h" and "view_byteLength h \<le> length (bytes h)"
  shows "\<exists>c. get_counter h = Inr c \<and> get_nonce h = replicate 4 0 @ be64 c"
proof -
  from assms have "length (take 8 (drop 16 (bytes h))) = 8"
    by simp
  then obtain a b c d e f g i where eq: "take 8 (drop 16 (bytes h)) = [a, b, c, d, e, f, g, i]"
    using list_of_length_8 by blast
  show ?thesis
    using assms
    by (simp add: get_counter_def view_getBigUint64_def get_nonce_def subarray_def Let_def eq
        be64_rd64_list)
qed

lemma length_get_nonce: "length (get_nonce h) = 12"
  by (simp add: get_nonce_def subarray_def Let_def)

lemma get_nonce_layout:
  "24 \<le> length (bytes h) \<Longrightarrow> get_nonce h = replicate 4 0 @ take 8 (drop 16 (bytes h))"
  by (simp add: get_nonce_def subarray_def Let_def)

section \<open>buildNHPPacket\<close>

subsection \<open>Stepping through the statements\<close>

lemma bindP_step:
  "bindP (step r) f w = (case r of Inl e \<Rightarrow> (Inl e, w) | Inr x \<Rightarrow> f x w)"
  by (simp add: bindP_def step_def split: sum.splits)

lemma bindP_crypto:
  "bindP (crypto c r) f w =
     (case r of Inl e \<Rightarrow> (Inl e, log_call c w) | Inr x \<Rightarrow> f x (log_call c w))"
  by (simp add: bindP_def crypto_def split: sum.splits)

lemma bindP_counter:
  "bindP increment_GlobalCounter f w = f () (w\<lparr>GlobalCounter := GlobalCounter w + 1\<rparr>)"
  "bindP read_GlobalCounter g w = g (GlobalCounter w) w"
  by (simp_all add: bindP_def increment_GlobalCounter_def read_GlobalCounter_def)

lemma log_call_simps:
  "crypto_log (log_call c w) = crypto_log w @ [c]"
  "GlobalCounter (log_call c w) = GlobalCounter w"
  by (simp_all add: log_call_def)

subsection \<open>How a call ends\<close>

text \<open>
  No call returns a packet: whatever the host, the imported functions, the arguments and the
  state, \<open>buildNHPPacket\<close> ends in a thrown error. At the latest it is the
  \<^verbatim>\<open>counter\<close> setter of line 116 that throws.
\<close>

lemma buildNHPPacket_returns_no_packet:
  "fst (buildNHPPacket hst cr type privateKey publicKey remotePublicKey msg w) \<noteq> Inr packet"
  unfolding buildNHPPacket_def
  by (simp add: Let_def bindP_step bindP_crypto bindP_counter set_counter_throws
      split: sum.splits)

text \<open>
  Claim C3 says that each call increments the global counter once and writes the new value
  into the counter field of the header. In a host that does not define \<^verbatim>\<open>Header\<close>, a
  call throws at line 17, before line 115: the state, counter included, is what it was.
  And in every host the \<^verbatim>\<open>counter\<close> setter throws instead of writing.
\<close>

theorem buildNHPPacket_counter_not_written:
  "buildNHPPacket plain_host cr type privateKey publicKey remotePublicKey msg w
     = (Inl (ReferenceError ''Header is not defined''), w)
   \<and> set_counter header v = Inl (TypeError ''Cannot convert a BigInt value to a number'')"
  unfolding buildNHPPacket_def
  by (simp add: Let_def bindP_step set_counter_throws NHPHeader_new_def plain_host_def)

text \<open>
  Where the host lets lines 17 and 31 pass, line 115 increments the counter and line 116
  throws: here the counter goes from 41 to 42 and only the three key imports have run.
\<close>

lemma buildNHPPacket_sample_host:
  "buildNHPPacket sample_host sample_crypto 1 ''cHJpdg=='' ''cHVi'' ''cnB1Yg=='' [1, 2, 3]
     \<lparr>GlobalCounter = 41, crypto_log = []\<rparr>
   = (Inl (TypeError ''Cannot convert a BigInt value to a number''),
      \<lparr>GlobalCounter = 42,
       crypto_log = [ImportKey ''cHJpdg=='', ImportKey ''cHVi'', ImportKey ''cnB1Yg=='']\<rparr>)"
  unfolding buildNHPPacket_def
  by (simp add: Let_def bindP_step bindP_crypto bindP_counter set_counter_throws log_call_def
      NHPHeader_new_def sample_host_def sample_crypto_def PacketBufferSize_def
      set_typeAndPayloadSize_def set_version_def view_setUint32_def view_setUint8_def)

subsection \<open>Calls into crypto.js\<close>

text \<open>
  No call reaches a seal: the seals logged after a call are the seals logged before it.
\<close>

lemma buildNHPPacket_never_seals:
  "filter is_seal
     (crypto_log (snd (buildNHPPacket hst cr type privateKey publicKey remotePublicKey msg w)))
   = filter is_seal (crypto_log w)"
  unfolding buildNHPPacket_def
  by (simp add: Let_def bindP_step bindP_crypto bindP_counter log_call_simps set_counter_throws
      is_seal_def split: sum.splits)

text \<open>
  No call reaches a transcript-mixing step either: a call updates no hasher and reads no
  digest.
\<close>

lemma buildNHPPacket_never_hashes:
  "filter is_hash_call
     (crypto_log (snd (buildNHPPacket hst cr type privateKey publicKey remotePublicKey msg w)))
   = filter is_hash_call (crypto_log w)"
  unfolding buildNHPPacket_def
  by (simp add: Let_def bindP_step bindP_crypto bindP_counter log_call_simps set_counter_throws
      is_hash_call_def split: sum.splits)

text \<open>
  Claim C7 says that the static field of the header receives the seal of the local static
  public key under key0, the key derived from the ephemeral-static secret. In the code no
  call derives a key: neither \<^verbatim>\<open>mixKey\<close> nor \<^verbatim>\<open>keyGen2\<close> is called, so key0 never
  exists and line 146 is never reached.
\<close>

theorem buildNHPPacket_never_derives_a_key:
  "filter is_key_derivation
     (crypto_log (snd (buildNHPPacket hst cr type privateKey publicKey remotePublicKey msg w)))
   = filter is_key_derivation (crypto_log w)"
  unfolding buildNHPPacket_def
  by (simp add: Let_def bindP_step bindP_crypto bindP_counter log_call_simps set_counter_throws
      is_key_derivation_def split: sum.splits)

subsection \<open>The payload\<close>

text \<open>
  Claim C8 says that a payload longer than the buffer budget, 4096 bytes less the header
  and the tag, is rejected with a PayloadTooLarge error before any key derivation, and that
  the rejected call leaves the global counter unchanged. It fails in \<open>sample_host\<close>,
  where lines 17 and 31 pass: a payload of 4000 bytes exceeds the budget of 3840, yet the
  call imports the three keys and increments the counter from 0 to 1, as it does for any
  payload. The error it ends with is the TypeError of line 116, not an error about the
  payload.
\<close>

theorem buildNHPPacket_oversize_counterexample:
  "PacketBufferSize - NHPHeader_SIZE - 16 < length (replicate 4000 (0::byte))
   \<and> buildNHPPacket sample_host sample_crypto 1
        ''dwdtCnMYpX08FsFyUbJmRd9ML4frwJkqsXf7pR25LCo=''
        ''hSDwCYkwp1R0i33ctD73Wg2/Og0mOBr066SpjqqbTmo=''
        ''3p7bfXt9wbTTW2HC7OQ1Nz+DQ8hbeGdNrfx+FG+IK08=''
        (replicate 4000 0) \<lparr>GlobalCounter = 0, crypto_log = []\<rparr>
     = (Inl (TypeError ''Cannot convert a BigInt value to a number''),
        \<lparr>GlobalCounter = 1,
         crypto_log = [ImportKey ''dwdtCnMYpX08FsFyUbJmRd9ML4frwJkqsXf7pR25LCo='',
                       ImportKey ''hSDwCYkwp1R0i33ctD73Wg2/Og0mOBr066SpjqqbTmo='',
                       ImportKey ''3p7bfXt9wbTTW2HC7OQ1Nz+DQ8hbeGdNrfx+FG+IK08='']\<rparr>)"
  unfolding buildNHPPacket_def
  by (simp add: Let_def bindP_step bindP_crypto bindP_counter set_counter_throws log_call_def
      NHPHeader_new_def sample_host_def sample_crypto_def PacketBufferSize_def NHPHeader_SIZE_def
      set_typeAndPayloadSize_def set_version_def view_setUint32_def view_setUint8_def)

text \<open>
  Claim C8 as amended: \<open>buildNHPPacket\<close> makes no check of the payload size before it
  increments the global counter. Where the host gives \<^verbatim>\<open>Header.SIZE\<close> a value
  from 10 to 4096 and lets the random preamble be drawn, so that lines 17 and 31 pass, and
  the three keys are imported, a call increments the global counter by one for every
  payload, whatever its length: an oversize payload is not rejected before line 115 and
  does not leave the counter unchanged.
\<close>

theorem buildNHPPacket_counts_every_payload:
  assumes "eval_Header_SIZE hst = Inr n" and "10 \<le> n" and "n \<le> PacketBufferSize"
    and "call_subtle_getRandomValues hst = Inr preamble"
    and "base64To25519PrivateKey cr privateKey = Inr localPrivKey"
    and "base64To25519PublicKey cr publicKey = Inr localPubKey"
    and "base64To25519PublicKey cr remotePublicKey = Inr remotePubKey"
  shows "GlobalCounter
           (snd (buildNHPPacket hst cr type privateKey publicKey remotePublicKey msg w))
         = GlobalCounter w + 1"
  using assms unfolding buildNHPPacket_def
  by (simp add: Let_def bindP_step bindP_crypto bindP_counter set_counter_throws log_call_simps
      NHPHeader_new_def set_typeAndPayloadSize_def set_version_def view_setUint32_def
      view_setUint8_def)

text \<open>
  In \<open>sample_host\<close>, with a payload of 4000 bytes, the counter goes from 7 to 8.
\<close>

theorem buildNHPPacket_counts_every_payload_witness:
  "eval_Header_SIZE sample_host = Inr 240 \<and> (10::nat) \<le> 240 \<and> 240 \<le> PacketBufferSize
   \<and> call_subtle_getRandomValues sample_host = Inr 0xDEADBEEF
   \<and> base64To25519PrivateKey sample_crypto ''dwdtCnMYpX08FsFyUbJmRd9ML4frwJkqsXf7pR25LCo=''
       = Inr ''dwdtCnMYpX08FsFyUbJmRd9ML4frwJkqsXf7pR25LCo=''
   \<and> base64To25519PublicKey sample_crypto ''hSDwCYkwp1R0i33ctD73Wg2/Og0mOBr066SpjqqbTmo=''
       = Inr ''hSDwCYkwp1R0i33ctD73Wg2/Og0mOBr066SpjqqbTmo=''
   \<and> base64To25519PublicKey sample_crypto ''3p7bfXt9wbTTW2HC7OQ1Nz+DQ8hbeGdNrfx+FG+IK08=''
       = Inr ''3p7bfXt9wbTTW2HC7OQ1Nz+DQ8hbeGdNrfx+FG+IK08=''
   \<and> PacketBufferSize - NHPHeader_SIZE - 16 < length (replicate 4000 (0::byte))
   \<and> GlobalCounter (snd (buildNHPPacket sample_host sample_crypto 1
        ''dwdtCnMYpX08FsFyUbJmRd9ML4frwJkqsXf7pR25LCo=''
        ''hSDwCYkwp1R0i33ctD73Wg2/Og0mOBr066SpjqqbTmo=''
        ''3p7bfXt9wbTTW2HC7OQ1Nz+DQ8hbeGdNrfx+FG+IK08=''
        (replicate 4000 0) \<lparr>GlobalCounter = 7, crypto_log = []\<rparr>)) = 8"
  using buildNHPPacket_counts_every_payload [of sample_host 240 "0xDEADBEEF" sample_crypto
      "''dwdtCnMYpX08FsFyUbJmRd9ML4frwJkqsXf7pR25LCo=''"
      "''dwdtCnMYpX08FsFyUbJmRd9ML4frwJkqsXf7pR25LCo=''"
      "''hSDwCYkwp1R0i33ctD73Wg2/Og0mOBr066SpjqqbTmo=''"
      "''hSDwCYkwp1R0i33ctD73Wg2/Og0mOBr066SpjqqbTmo=''"
      "''3p7bfXt9wbTTW2HC7OQ1Nz+DQ8hbeGdNrfx+FG+IK08=''"
      "''3p7bfXt9wbTTW2HC7OQ1Nz+DQ8hbeGdNrfx+FG+IK08=''" 1 "replicate 4000 0"
      "\<lparr>GlobalCounter = 7, crypto_log = []\<rparr>"]
  by (simp add: sample_host_def sample_crypto_def PacketBufferSize_def NHPHeader_SIZE_def)

subsection \<open>The handshake statements\<close>

text \<open>
  Lines 119 to 175 are never reached by a call, but they are what the returned packet would
  come from. The facts below hold for every host, every \<^verbatim>\<open>crypto.js\<close> and every
  header handed to these statements; the reasoning steps through them one at a time.
\<close>

lemma length_InitialHashString: "length InitialHashString = 39"
  by (simp add: InitialHashString_def)

lemma region_kept:
  assumes "typed_array_set t s off = Inr t'" and "off + length s \<le> a \<or> a + n \<le> off"
  shows "take n (drop a t') = take n (drop a t)"
proof -
  from assms(1) have fit: "off + length s \<le> length t"
    and t': "t' = take off t @ s @ drop (off + length s) t"
    by (auto simp: typed_array_set_def split: if_splits)
  have len: "length t' = length t"
    using fit by (simp add: t')
  show ?thesis
  proof (rule nth_equalityI)
    show "length (take n (drop a t')) = length (take n (drop a t))"
      by (simp add: len)
  next
    fix i
    assume "i < length (take n (drop a t'))"
    then have i: "i < n" "a + i < length t"
      by (auto simp: len)
    from assms(2) have "a + i < off \<or> off + length s \<le> a + i"
      using i by auto
    then have "t' ! (a + i) = t ! (a + i)"
      using fit i by (auto simp: t' nth_append)
    then show "take n (drop a t') ! i = take n (drop a t) ! i"
      using i len by simp
  qed
qed

lemma setters_keep_hmac:
  "set_ephermeral h bs = Inr h' \<Longrightarrow> get_hmac h' = get_hmac h"
  "set_static h bs = Inr h' \<Longrightarrow> get_hmac h' = get_hmac h"
  "set_timestamp h bs = Inr h' \<Longrightarrow> get_hmac h' = get_hmac h"
  by (auto simp: set_ephermeral_def set_static_def set_timestamp_def get_hmac_def subarray_def
      split: if_splits sum.splits dest!: region_kept[where a = 208 and n = 32])

lemma payload_keeps_hmac:
  "typed_array_set (bytes h) m 240 = Inr p \<Longrightarrow> 240 \<le> k
     \<Longrightarrow> subarray (subarray p 0 k) 208 240 = get_hmac h"
  by (auto simp: get_hmac_def subarray_def take_drop min_def
      dest!: region_kept[where a = 208 and n = 32])

lemma on_return_step:
  "(\<And>x. on_return (f x) w Q) \<Longrightarrow> on_return (bindP (step r) f) w Q"
  by (simp add: on_return_def bindP_def step_def split: sum.splits)

lemma on_return_crypto:
  "(\<And>x. on_return (f x) (log_call c w) Q) \<Longrightarrow> on_return (bindP (crypto c r) f) w Q"
  by (simp add: on_return_def bindP_def crypto_def split: sum.splits)

lemma on_return_crypto_pair:
  "(\<And>a b. on_return (g a b) (log_call c w) Q)
     \<Longrightarrow> on_return (bindP (crypto c r) (\<lambda>(a, b). g a b)) w Q"
  by (simp add: on_return_def bindP_def crypto_def split: sum.splits)

lemma on_return_setter:
  "(\<And>h'. get_hmac h' = get_hmac h \<Longrightarrow> on_return (f h') w Q)
     \<Longrightarrow> on_return (bindP (step (set_ephermeral h bs)) f) w Q"
  "(\<And>h'. get_hmac h' = get_hmac h \<Longrightarrow> on_return (f h') w Q)
     \<Longrightarrow> on_return (bindP (step (set_static h bs)) f) w Q"
  "(\<And>h'. get_hmac h' = get_hmac h \<Longrightarrow> on_return (f h') w Q)
     \<Longrightarrow> on_return (bindP (step (set_timestamp h bs)) f) w Q"
  by (auto simp add: on_return_def bindP_def step_def setters_keep_hmac split: sum.splits)

lemma on_return_payload:
  "(\<And>p. typed_array_set (bytes h) m 240 = Inr p \<Longrightarrow> on_return (f p) w Q)
     \<Longrightarrow> on_return (bindP (step (typed_array_set (bytes h) m 240)) f) w Q"
  by (auto simp add: on_return_def bindP_def step_def split: sum.splits)

lemma on_return_returnP: "on_return (returnP x) w Q = Q x w"
  by (simp add: on_return_def returnP_def)

text \<open>
  No statement of the handshake writes the tag field: bytes 208 to 240 of a returned packet
  are those of the header before the handshake, which are zero in a fresh packet buffer.
\<close>

lemma build_handshake_leaves_hmac:
  "on_return
     (build_handshake hst cr header nonce localPrivKey remotePubKey publicKey remotePublicKey msg)
     w (\<lambda>packet w'. subarray packet 208 240 = get_hmac header)"
  unfolding build_handshake_def Let_def
  apply (rule on_return_setter on_return_payload | rule on_return_crypto_pair
         | rule on_return_step on_return_crypto)+
  apply (simp add: on_return_returnP payload_keeps_hmac add.assoc)
  done

text \<open>
  A handshake that returns has made three seals, each with the nonce it was given; their
  plaintexts are the string \<^verbatim>\<open>publicKey\<close>, the bytes of \<^verbatim>\<open>new Uint8Array(buffer)\<close>
  and the payload.
\<close>

lemma build_handshake_seals:
  "on_return
     (build_handshake hst cr header nonce localPrivKey remotePubKey publicKey remotePublicKey msg)
     w (\<lambda>packet w'. \<exists>ts.
          seal_nonces (crypto_log w') = seal_nonces (crypto_log w) @ [nonce, nonce, nonce]
          \<and> seal_plaintexts (crypto_log w')
              = seal_plaintexts (crypto_log w) @ [Str publicKey, Bytes ts, Bytes msg])"
  unfolding build_handshake_def Let_def
  apply (rule on_return_crypto_pair | rule on_return_step on_return_crypto)+
  apply (simp add: on_return_returnP seal_nonces_def seal_plaintexts_def log_call_simps)
  done

text \<open>
  The handshake does return in \<open>sample_host\<close> with \<open>sample_crypto\<close>: a payload of 3 bytes
  gives a packet of 259 bytes whose tag field is zero.
\<close>

lemma build_handshake_sample:
  "(case build_handshake sample_host sample_crypto
          \<lparr>view_byteLength = 240, bytes = replicate 4096 0\<rparr> (replicate 12 0)
          ''local-private'' ''remote-public'' ''cHVi'' ''cnB1Yg=='' [1, 2, 3]
          \<lparr>GlobalCounter = 1, crypto_log = []\<rparr> of
      (Inl e, w') \<Rightarrow> False
    | (Inr packet, w') \<Rightarrow>
        length packet = 259 \<and> subarray packet 208 240 = replicate 32 0
        \<and> seal_nonces (crypto_log w') = [replicate 12 0, replicate 12 0, replicate 12 0])"
  unfolding build_handshake_def Let_def
  by (simp add: bindP_step bindP_crypto returnP_def sample_host_def sample_crypto_def
      typed_array_set_def set_ephermeral_def set_static_def set_timestamp_def subarray_def
      data_bytes_def sample_bytes_def log_call_def seal_nonces_def sample_hash_def
      length_InitialHashString)

text \<open>
  With a public key given as the 44 characters of a base64 string, the first seal is made on
  that string; the sample seal returns 60 bytes, which the \<^verbatim>\<open>static\<close> setter ignores,
  and the static field of the returned packet is still zero.
\<close>

lemma build_handshake_sample_static:
  "(case build_handshake sample_host sample_crypto
          \<lparr>view_byteLength = 240, bytes = replicate 4096 0\<rparr> (replicate 12 0)
          ''local-private'' ''remote-public''
          ''MDEyMzQ1Njc4OWFiY2RlZjAxMjM0NTY3ODlhYmNkZWY='' ''cnB1Yg=='' [1, 2, 3]
          \<lparr>GlobalCounter = 1, crypto_log = []\<rparr> of
      (Inl e, w') \<Rightarrow> False
    | (Inr packet, w') \<Rightarrow>
        subarray packet 136 184 = replicate 48 0
        \<and> seal_plaintexts (crypto_log w')
            = [Str ''MDEyMzQ1Njc4OWFiY2RlZjAxMjM0NTY3ODlhYmNkZWY='', Bytes (replicate 8 9),
               Bytes [1, 2, 3]])"
  unfolding build_handshake_def Let_def
  by (simp add: bindP_step bindP_crypto returnP_def sample_host_def sample_crypto_def
      typed_array_set_def set_ephermeral_def set_static_def set_timestamp_def subarray_def
      data_bytes_def sample_bytes_def log_call_def seal_plaintexts_def sample_hash_def
      length_InitialHashString)

subsection \<open>An oversize payload in the handshake\<close>

text \<open>
  The one place where the size of the payload matters is line 173: with a payload of 4000
  bytes the sealed payload does not fit behind the header, and \<^verbatim>\<open>packet.set\<close> throws a
  RangeError, after all key derivations and all three seals.
\<close>

lemma build_handshake_oversize_sample:
  "(case build_handshake sample_host sample_crypto
          \<lparr>view_byteLength = 240, bytes = replicate 4096 0\<rparr> (replicate 12 0)
          ''local-private'' ''remote-public'' ''cHVi'' ''cnB1Yg=='' (replicate 4000 0)
          \<lparr>GlobalCounter = 1, crypto_log = []\<rparr> of
      (r, w') \<Rightarrow>
        r = Inl (RangeError ''offset is out of bounds'')
        \<and> length (filter is_seal (crypto_log w')) = 3
        \<and> length (filter is_key_derivation (crypto_log w')) = 5)"
  unfolding build_handshake_def Let_def
  by (simp add: bindP_step bindP_crypto returnP_def sample_host_def sample_crypto_def
      typed_array_set_def set_ephermeral_def set_static_def set_timestamp_def subarray_def
      data_bytes_def sample_bytes_def log_call_def is_seal_def is_key_derivation_def
      sample_hash_def length_InitialHashString)

section \<open>parseNHPPacket\<close>

text \<open>
  Claim C1 says that parsing the bytes produced by \<open>buildNHPPacket\<close> returns the packet
  type, the sender's static public key, the timestamp and the payload. The code does not:
  the parser has no statements and yields \<^verbatim>\<open>undefined\<close> for every byte sequence.
\<close>

theorem parseNHPPacket_undefined: "parseNHPPacket packet = None"
  by (simp add: parseNHPPacket_def)

section \<open>sm2ECDH\<close>

lemma sm2_sample_lengths:
  "length sm2_private_2 = 32" "length sm2_public_3G = 64" "length sm2_shared_X = 32"
  by (simp_all add: sm2_private_2_def sm2_public_3G_def sm2_shared_X_def)

lemma bytesToHex_sm2_private_2:
  "bytesToHex_lower sm2_private_2
     = ''0000000000000000000000000000000000000000000000000000000000000002''"
  by (simp add: bytesToHex_lower_def sm2_private_2_def hex_digit_def)

lemma bytesToHex_sm2_public_3G:
  "bytesToHex_lower sm2_public_3G
     = ''a97f7cd4b3c993b4be2daa8cdb41e24ca13f6bd945302244e26918f1d0509ebf530b5dd88c688ef5ccc5cec08a72150f7c400ee5cd045292aaacdd037458f6e6''"
  by (simp add: bytesToHex_lower_def sm2_public_3G_def hex_digit_def)

text \<open>
  Claim C9 says that \<open>sm2ECDH\<close>, given a private key of 32 bytes and a public key of 64
  bytes, returns the X coordinate of the shared point, and that with a key of another
  length it throws before any key exchange. The code: with keys of 32 and 64 bytes it makes
  one call to the key exchange, on the hex forms of the whole keys, passes on the error
  that call throws, and otherwise returns the first 32 bytes of what the call returns. Where
  the library returns the shared point in compressed form, a prefix byte and the 32 bytes
  \<open>X\<close> of the X coordinate, the result is the prefix byte and the first 31 bytes of
  \<open>X\<close>: it is not the X coordinate, whose last byte is lost, against the comment at lines
  113 and 114. With a private key of another length, or a public key of another length,
  \<open>sm2ECDH\<close> throws the error naming the required size and makes no call to the key
  exchange.
\<close>

theorem sm2ECDH_keeps_prefix_byte:
  "(length privateKey = 32 \<and> length publicKey = 64
    \<longrightarrow> sm2ECDH lib privateKey publicKey
          = ((case sm2_ecdh lib (bytesToHex lib privateKey) (''04'' @ bytesToHex lib publicKey) of
                Inl e \<Rightarrow> Inl e
              | Inr sharedSecret \<Rightarrow> Inr (take 32 sharedSecret)),
             [(bytesToHex lib privateKey, ''04'' @ bytesToHex lib publicKey)]))
   \<and> (length privateKey = 32 \<and> length publicKey = 64 \<and> length X = 32
      \<and> sm2_ecdh lib (bytesToHex lib privateKey) (''04'' @ bytesToHex lib publicKey)
          = Inr (prefix # X)
    \<longrightarrow> fst (sm2ECDH lib privateKey publicKey) = Inr (prefix # butlast X))
   \<and> (length privateKey \<noteq> 32
    \<longrightarrow> sm2ECDH lib privateKey publicKey
          = (Inl (Error ''SM2 private key must be 32 bytes''), []))
   \<and> (length privateKey = 32 \<and> length publicKey \<noteq> 64
    \<longrightarrow> sm2ECDH lib privateKey publicKey
          = (Inl (Error ''SM2 public key must be 64 bytes''), []))"
  by (simp add: sm2ECDH_def SM2_PRIVATE_KEY_SIZE_def SM2_PUBLIC_KEY_SIZE_def Let_def
      butlast_conv_take)

text \<open>
  The tabulated exchange: the private key 2 and the public key \<open>3G\<close> give the byte 03
  and the first 31 bytes of the X coordinate of \<open>6G\<close>, which is not that X coordinate.
  Then a private key of 31 bytes, and a public key of 63 bytes.
\<close>

theorem sm2ECDH_keeps_prefix_byte_witness:
  "length sm2_private_2 = 32 \<and> length sm2_public_3G = 64 \<and> length sm2_shared_X = 32
   \<and> sm2_ecdh tabulated_sm2 (bytesToHex tabulated_sm2 sm2_private_2)
         (''04'' @ bytesToHex tabulated_sm2 sm2_public_3G)
       = Inr (3 # sm2_shared_X)
   \<and> fst (sm2ECDH tabulated_sm2 sm2_private_2 sm2_public_3G) = Inr (3 # butlast sm2_shared_X)
   \<and> 3 # butlast sm2_shared_X \<noteq> sm2_shared_X
   \<and> length (replicate 31 (1::byte)) \<noteq> 32
   \<and> sm2ECDH tabulated_sm2 (replicate 31 1) sm2_public_3G
     = (Inl (Error ''SM2 private key must be 32 bytes''), [])
   \<and> length (replicate 63 (2::byte)) \<noteq> 64
   \<and> sm2ECDH tabulated_sm2 sm2_private_2 (replicate 63 2)
     = (Inl (Error ''SM2 public key must be 64 bytes''), [])"
  using sm2ECDH_keeps_prefix_byte [of sm2_private_2 sm2_public_3G tabulated_sm2 sm2_shared_X 3]
    sm2ECDH_keeps_prefix_byte [of "replicate 31 1" sm2_public_3G tabulated_sm2 "[]" 0]
    sm2ECDH_keeps_prefix_byte [of sm2_private_2 "replicate 63 2" tabulated_sm2 "[]" 0]
  by (simp add: tabulated_sm2_def bytesToHex_sm2_private_2 bytesToHex_sm2_public_3G
      sm2_sample_lengths sm2_shared_X_def)

end
